theory Spec2Isabelle
  imports Main
begin

section \<open>Python values and exceptions\<close>

text \<open>
  The program is a single Python script, \<^verbatim>\<open>main.py\<close>. Its data are YAML and JSON
  documents (the configuration, the answers of the billing services), so one datatype of
  Python values serves for all of them. Dictionaries are association lists with string
  keys; floating-point numbers are kept abstract in the type variable \<open>'f\<close>.
\<close>

datatype 'f pyval =
    PNone
  | PBool bool
  | PInt int
  | PFloat 'f
  | PStr string
  | PList "'f pyval list"
  | PDict "(string \<times> 'f pyval) list"

text \<open>
  An exception is its class and the text \<^verbatim>\<open>str(e)\<close> gives. Every class listed is a
  subclass of \<^verbatim>\<open>Exception\<close>; \<^verbatim>\<open>SystemExit\<close>, raised by \<^verbatim>\<open>exit(1)\<close>, is not, and is
  kept apart, since \<^verbatim>\<open>except Exception\<close> does not catch it.
\<close>

datatype exn_class =
    FileNotFoundError | YAMLError | KeyError | IndexError | TypeError | ValueError
  | AttributeError | OverflowError | ClientError | OperationalError | OtherError

datatype py_exn = Exn exn_class string

fun exn_str :: "py_exn \<Rightarrow> string" where
  "exn_str (Exn c m) = m"

fun exn_class_of :: "py_exn \<Rightarrow> exn_class" where
  "exn_class_of (Exn c m) = c"

datatype abort = Raised py_exn | SystemExit nat

type_synonym 'a res = "abort + 'a"

definition raise :: "exn_class \<Rightarrow> string \<Rightarrow> 'a res" where
  "raise c m = Inl (Raised (Exn c m))"

section \<open>Calendar dates\<close>

text \<open>
  The date part of a \<^verbatim>\<open>datetime\<close>. The script formats dates only, and subtracting
  whole days leaves the time of day alone, so the time of day is not modelled.
  Python's dates run from year 1 to year 9999.
\<close>

record date =
  year :: nat
  month :: nat
  day :: nat

definition is_leap :: "nat \<Rightarrow> bool" where
  "is_leap y = (y mod 4 = 0 \<and> (y mod 100 \<noteq> 0 \<or> y mod 400 = 0))"

definition days_in_month :: "nat \<Rightarrow> nat \<Rightarrow> nat" where
  "days_in_month y m =
     (if m = 2 then (if is_leap y then 29 else 28)
      else if m = 4 \<or> m = 6 \<or> m = 9 \<or> m = 11 then 30
      else 31)"

definition valid_date :: "date \<Rightarrow> bool" where
  "valid_date d =
     (1 \<le> year d \<and> year d \<le> 9999 \<and> 1 \<le> month d \<and> month d \<le> 12 \<and>
      1 \<le> day d \<and> day d \<le> days_in_month (year d) (month d))"

text \<open>\<^verbatim>\<open>d.replace(day=1)\<close>: day 1 exists in every month, so this never raises.\<close>

definition replace_day1 :: "date \<Rightarrow> date" where
  "replace_day1 d = d\<lparr>day := 1\<rparr>"

text \<open>
  \<^verbatim>\<open>d - timedelta(days=1)\<close>: the day before, or \<^verbatim>\<open>OverflowError\<close> when that would
  be before 0001-01-01.
\<close>

definition minus_one_day :: "date \<Rightarrow> date res" where
  "minus_one_day d =
     (if 1 < day d then Inr (d\<lparr>day := day d - 1\<rparr>)
      else if 1 < month d then
        Inr (d\<lparr>month := month d - 1, day := days_in_month (year d) (month d - 1)\<rparr>)
      else if 1 < year d then
        Inr (d\<lparr>year := year d - 1, month := 12, day := 31\<rparr>)
      else raise OverflowError ''date value out of range'')"

subsection \<open>strftime\<close>

definition digit :: "nat \<Rightarrow> char" where
  "digit n = char_of (48 + n mod 10)"

text \<open>\<^verbatim>\<open>%m\<close>, \<^verbatim>\<open>%d\<close> and \<^verbatim>\<open>%y\<close>: two digits, zero-padded.\<close>

definition pad2 :: "nat \<Rightarrow> string" where
  "pad2 n = [digit (n div 10), digit n]"

text \<open>\<^verbatim>\<open>%Y\<close>: the year with century, four digits as the library documents it.\<close>

definition pad4 :: "nat \<Rightarrow> string" where
  "pad4 n = [digit (n div 1000), digit (n div 100), digit (n div 10), digit n]"

text \<open>\<^verbatim>\<open>strftime('%Y-%m-%d')\<close>\<close>

definition strftime_ymd :: "date \<Rightarrow> string" where
  "strftime_ymd d = pad4 (year d) @ ''-'' @ pad2 (month d) @ ''-'' @ pad2 (day d)"

text \<open>\<^verbatim>\<open>strftime('%d/%m/%y')\<close>\<close>

definition strftime_dmy :: "date \<Rightarrow> string" where
  "strftime_dmy d = pad2 (day d) @ ''/'' @ pad2 (month d) @ ''/'' @ pad2 (year d mod 100)"

text \<open>
  \<^verbatim>\<open>get_previous_month_range\<close>, as a function of the value \<^verbatim>\<open>datetime.today()\<close>
  returned.
\<close>

definition get_previous_month_range ::
  "date \<Rightarrow> ((string \<times> string) \<times> (string \<times> string)) res" where
  "get_previous_month_range today =
     (let first_of_this_month = replace_day1 today in
      case minus_one_day first_of_this_month of
        Inl e \<Rightarrow> Inl e
      | Inr last_of_previous_month \<Rightarrow>
          let first_of_previous_month = replace_day1 last_of_previous_month;
              aws_start_date = strftime_ymd first_of_previous_month;
              aws_end_date = strftime_ymd last_of_previous_month;
              azure_start_date = strftime_ymd first_of_previous_month @ ''T00:00:00Z'';
              azure_end_date = strftime_ymd last_of_previous_month @ ''T23:59:59Z''
          in Inr ((aws_start_date, aws_end_date), (azure_start_date, azure_end_date)))"

section \<open>Subscripting, iteration and string methods\<close>

definition rbind :: "'a res \<Rightarrow> ('a \<Rightarrow> 'b res) \<Rightarrow> 'b res" where
  "rbind x f = (case x of Inl e \<Rightarrow> Inl e | Inr v \<Rightarrow> f v)"

definition quote :: "string \<Rightarrow> string" where
  "quote k = [CHR 0x27] @ k @ [CHR 0x27]"

text \<open>
  \<^verbatim>\<open>obj['k']\<close> with a string key. Only a dictionary has string keys; the wording of
  the \<^verbatim>\<open>TypeError\<close> texts is shortened.
\<close>

fun getitem :: "'f pyval \<Rightarrow> string \<Rightarrow> 'f pyval res" where
  "getitem (PDict kvs) k =
     (case map_of kvs k of
        Some v \<Rightarrow> Inr v
      | None \<Rightarrow> raise KeyError (quote k))"
| "getitem (PList xs) k = raise TypeError ''list indices must be integers or slices, not str''"
| "getitem (PStr s) k = raise TypeError ''string indices must be integers''"
| "getitem v k = raise TypeError ''object is not subscriptable''"

text \<open>\<^verbatim>\<open>obj[0]\<close>\<close>

fun getitem0 :: "'f pyval \<Rightarrow> 'f pyval res" where
  "getitem0 (PList []) = raise IndexError ''list index out of range''"
| "getitem0 (PList (x # xs)) = Inr x"
| "getitem0 (PStr []) = raise IndexError ''string index out of range''"
| "getitem0 (PStr (c # cs)) = Inr (PStr [c])"
| "getitem0 (PDict kvs) = raise KeyError ''0''"
| "getitem0 v = raise TypeError ''object is not subscriptable''"

text \<open>
  The values a \<^verbatim>\<open>for\<close> loop runs over: the elements of a list, the keys of a
  dictionary, the characters of a string.
\<close>

fun py_iter :: "'f pyval \<Rightarrow> 'f pyval list res" where
  "py_iter (PList xs) = Inr xs"
| "py_iter (PDict kvs) = Inr (map (\<lambda>kv. PStr (fst kv)) kvs)"
| "py_iter (PStr s) = Inr (map (\<lambda>c. PStr [c]) s)"
| "py_iter v = raise TypeError ''object is not iterable''"

definition upper_char :: "char \<Rightarrow> char" where
  "upper_char c =
     (let n = (of_char c :: nat) in if 97 \<le> n \<and> n \<le> 122 then char_of (n - 32) else c)"

text \<open>\<^verbatim>\<open>v.upper()\<close>, on ASCII letters; only a string has the method.\<close>

fun py_upper :: "'f pyval \<Rightarrow> string res" where
  "py_upper (PStr s) = Inr (map upper_char s)"
| "py_upper v = raise AttributeError ''object has no attribute upper''"

text \<open>\<^verbatim>\<open>v.replace("_", "-")\<close>\<close>

fun py_replace_underscore :: "'f pyval \<Rightarrow> string res" where
  "py_replace_underscore (PStr s) = Inr (map (\<lambda>c. if c = CHR ''_'' then CHR ''-'' else c) s)"
| "py_replace_underscore v = raise AttributeError ''object has no attribute replace''"

text \<open>How an f-string renders what \<^verbatim>\<open>os.getenv\<close> returned.\<close>

fun str_of_getenv :: "string option \<Rightarrow> string" where
  "str_of_getenv None = ''None''"
| "str_of_getenv (Some s) = s"

section \<open>The outside world\<close>

text \<open>The keyword arguments of \<^verbatim>\<open>get_cost_and_usage\<close>; \<open>Filter\<close> is \<open>None\<close> when the
  call passes no \<^verbatim>\<open>Filter\<close>.\<close>

record 'f ce_query =
  TimePeriod :: "'f pyval"
  Granularity :: string
  Metrics :: "string list"
  Filter :: "'f pyval option"

text \<open>The session \<^verbatim>\<open>assume_role\<close> builds from the temporary credentials.\<close>

record 'f session =
  aws_access_key_id :: "'f pyval"
  aws_secret_access_key :: "'f pyval"
  aws_session_token :: "'f pyval"

record azure_credential =
  tenant_id :: "string option"
  client_id :: "string option"
  client_secret :: "string option"

record 'f query_definition =
  qd_type :: string
  timeframe :: string
  time_period :: "'f pyval"
  dataset :: "'f pyval"

text \<open>A row of a cost table, as the \<^verbatim>\<open>INSERT\<close> statement names its columns.\<close>

record 'f db_row =
  accountName :: "'f pyval"
  Subscription :: "'f pyval"
  monthlyCost :: "'f pyval"
  SampleDate :: string

text \<open>
  What the run has done so far. \<open>ticks\<close> counts the calls made to the outside, so that
  the outside may answer each call differently. \<open>ce_calls\<close> are the cost queries sent to
  AWS, \<open>insert_calls\<close> the calls of \<^verbatim>\<open>insert_into_db\<close> with table and data, and
  \<open>db\<close> the committed rows with their table.
\<close>

record 'f world =
  ticks :: nat
  stdout :: "string list"
  stderr :: "string list"
  ce_calls :: "'f ce_query list"
  insert_calls :: "(string \<times> 'f pyval) list"
  db :: "(string \<times> 'f db_row) list"

text \<open>
  The outside, as the script meets it: the configuration file (what opening and parsing
  it gives), the clock, the process environment, and the answers of STS, Cost Explorer,
  the Azure SDK and the database driver. A call either returns or raises an exception of
  class \<^verbatim>\<open>Exception\<close>. The role ARN is an f-string of the account id and the role
  name; the model hands STS the two values.
\<close>

record 'f env =
  config_file :: "nat \<Rightarrow> py_exn + 'f pyval"
  today :: "nat \<Rightarrow> date"
  getenv :: "string \<Rightarrow> string option"
  py_float :: "'f pyval \<Rightarrow> py_exn + 'f"
  sts_assume_role :: "nat \<Rightarrow> 'f pyval \<Rightarrow> 'f pyval \<Rightarrow> py_exn + 'f pyval"
  get_cost_and_usage :: "nat \<Rightarrow> 'f session \<Rightarrow> 'f ce_query \<Rightarrow> py_exn + 'f pyval"
  client_secret_credential :: "azure_credential \<Rightarrow> py_exn option"
  cost_management_client :: "azure_credential \<Rightarrow> 'f pyval \<Rightarrow> py_exn option"
  query_usage ::
    "nat \<Rightarrow> azure_credential \<Rightarrow> string \<Rightarrow> 'f query_definition \<Rightarrow> py_exn + 'f pyval list option"
  psycopg2_connect :: "nat \<Rightarrow> string \<Rightarrow> py_exn option"
  cursor_execute :: "nat \<Rightarrow> string \<Rightarrow> 'f db_row \<Rightarrow> py_exn option"
  conn_commit :: "nat \<Rightarrow> py_exn option"

definition tick :: "'f world \<Rightarrow> 'f world" where
  "tick w = w\<lparr>ticks := Suc (ticks w)\<rparr>"

definition print_stdout :: "string \<Rightarrow> 'f world \<Rightarrow> 'f world" where
  "print_stdout s w = w\<lparr>stdout := stdout w @ [s]\<rparr>"

definition print_stderr :: "string \<Rightarrow> 'f world \<Rightarrow> 'f world" where
  "print_stderr s w = w\<lparr>stderr := stderr w @ [s]\<rparr>"

section \<open>The script\<close>

subsection \<open>load_config\<close>

text \<open>
  Opening and parsing \<^verbatim>\<open>/config/config.yaml\<close>. The three handlers are tried in the
  order of the source; each prints to standard output and calls \<^verbatim>\<open>exit(1)\<close>.
\<close>

definition load_config :: "'f env \<Rightarrow> 'f world \<Rightarrow> 'f pyval res \<times> 'f world" where
  "load_config env w =
     (case config_file env (ticks w) of
        Inr config \<Rightarrow> (Inr config, tick w)
      | Inl e \<Rightarrow>
          if exn_class_of e = FileNotFoundError then
            (Inl (SystemExit 1),
             print_stdout ''Error: Config file not found at /config/config.yaml'' (tick w))
          else if exn_class_of e = YAMLError then
            (Inl (SystemExit 1),
             print_stdout (''Error parsing YAML file: '' @ exn_str e) (tick w))
          else
            (Inl (SystemExit 1),
             print_stdout (''An error occurred: '' @ exn_str e) (tick w)))"

subsection \<open>assume_role\<close>

definition assume_role ::
  "'f env \<Rightarrow> 'f pyval \<Rightarrow> 'f pyval \<Rightarrow> 'f world \<Rightarrow> 'f session res \<times> 'f world" where
  "assume_role env account_id role_name w =
     (case sts_assume_role env (ticks w) account_id role_name of
        Inl e \<Rightarrow> (Inl (Raised e), tick w)
      | Inr assumed_role \<Rightarrow>
          (rbind (getitem assumed_role ''Credentials'') (\<lambda>credentials.
           rbind (getitem credentials ''AccessKeyId'') (\<lambda>key_id.
           rbind (getitem credentials ''SecretAccessKey'') (\<lambda>secret.
           rbind (getitem credentials ''SessionToken'') (\<lambda>token.
             Inr \<lparr>aws_access_key_id = key_id, aws_secret_access_key = secret,
                  aws_session_token = token\<rparr>)))),
           tick w))"

subsection \<open>fetch_aws_costs\<close>

text \<open>
  \<^verbatim>\<open>float(response['ResultsByTime'][0]['Total']['UnblendedCost']['Amount'])\<close>,
  the expression both branches return. It stands after the \<^verbatim>\<open>try\<close> statement.
\<close>

definition unblended_amount :: "'f env \<Rightarrow> 'f pyval \<Rightarrow> 'f pyval res" where
  "unblended_amount env response =
     rbind (getitem response ''ResultsByTime'') (\<lambda>results.
     rbind (getitem0 results) (\<lambda>first.
     rbind (getitem first ''Total'') (\<lambda>total.
     rbind (getitem total ''UnblendedCost'') (\<lambda>cost.
     rbind (getitem cost ''Amount'') (\<lambda>amount.
       case py_float env amount of
         Inl e \<Rightarrow> Inl (Raised e)
       | Inr x \<Rightarrow> Inr (PFloat x))))))"

text \<open>
  The \<^verbatim>\<open>try\<close> statement of either branch: send the query; on an exception print to
  standard error and return \<^verbatim>\<open>None\<close>, otherwise return the amount.
\<close>

definition query_costs ::
  "'f env \<Rightarrow> 'f session \<Rightarrow> 'f ce_query \<Rightarrow> 'f world \<Rightarrow> 'f pyval res \<times> 'f world" where
  "query_costs env session q w =
     (let w' = tick (w\<lparr>ce_calls := ce_calls w @ [q]\<rparr>) in
      case get_cost_and_usage env (ticks w) session q of
        Inl e \<Rightarrow> (Inr PNone, print_stderr (''Error fetching AWS costs: '' @ exn_str e) w')
      | Inr response \<Rightarrow> (unblended_amount env response, w'))"

definition fetch_aws_costs ::
  "'f env \<Rightarrow> 'f pyval \<Rightarrow> string \<Rightarrow> string \<Rightarrow> 'f world \<Rightarrow> 'f pyval res \<times> 'f world" where
  "fetch_aws_costs env aws_account start_date end_date w =
     (case getitem aws_account ''accountId'' of Inl e \<Rightarrow> (Inl e, w) | Inr account_id \<Rightarrow>
      case getitem aws_account ''roleName'' of Inl e \<Rightarrow> (Inl e, w) | Inr role_name \<Rightarrow>
      case assume_role env account_id role_name w of
        (Inl e, w1) \<Rightarrow> (Inl e, w1)
      | (Inr session, w1) \<Rightarrow>
      case getitem aws_account ''tags'' of Inl e \<Rightarrow> (Inl e, w1) | Inr tags \<Rightarrow>
        if tags = PStr ''true'' then
          case getitem aws_account ''tagKey'' of Inl e \<Rightarrow> (Inl e, w1) | Inr tag_key \<Rightarrow>
          case getitem aws_account ''tagValue'' of Inl e \<Rightarrow> (Inl e, w1) | Inr tag_value \<Rightarrow>
            query_costs env session
              \<lparr>TimePeriod = PDict [(''Start'', PStr start_date), (''End'', PStr end_date)],
               Granularity = ''MONTHLY'',
               Metrics = [''UnblendedCost''],
               Filter = Some (PDict [(''Tags'', PDict
                 [(''Key'', tag_key),
                  (''Values'', PList [tag_value]),
                  (''MatchOptions'', PList [PStr ''EQUALS''])])])\<rparr> w1
        else
          query_costs env session
            \<lparr>TimePeriod = PDict [(''Start'', PStr start_date), (''End'', PStr end_date)],
             Granularity = ''MONTHLY'',
             Metrics = [''UnblendedCost''],
             Filter = None\<rparr> w1)"

subsection \<open>fetch_azure_costs\<close>

text \<open>
  The \<^verbatim>\<open>try\<close> statement: the query, the test of \<^verbatim>\<open>result.rows\<close> and the read of
  \<^verbatim>\<open>rows[0][0]\<close> are all inside it, so whatever they raise is printed and the
  function returns \<^verbatim>\<open>None\<close>.
\<close>

definition query_azure ::
  "'f env \<Rightarrow> azure_credential \<Rightarrow> string \<Rightarrow> 'f query_definition \<Rightarrow> 'f world
     \<Rightarrow> 'f pyval res \<times> 'f world" where
  "query_azure env client scope query w =
     (let w' = tick w in
      case query_usage env (ticks w) client scope query of
        Inl e \<Rightarrow> (Inr PNone, print_stderr (''Error fetching Azure costs: '' @ exn_str e) w')
      | Inr rows \<Rightarrow>
          (case rows of
             Some (r # rs) \<Rightarrow>
               (case getitem0 r of
                  Inr cost_value \<Rightarrow> (Inr cost_value, w')
                | Inl (Raised e) \<Rightarrow>
                    (Inr PNone, print_stderr (''Error fetching Azure costs: '' @ exn_str e) w')
                | Inl a \<Rightarrow> (Inl a, w'))
           | _ \<Rightarrow> (Inr PNone, print_stdout ''No data available.'' w')))"

definition fetch_azure_costs ::
  "'f env \<Rightarrow> 'f pyval \<Rightarrow> string \<Rightarrow> string \<Rightarrow> 'f world \<Rightarrow> 'f pyval res \<times> 'f world" where
  "fetch_azure_costs env azure_account start_date end_date w =
     (case rbind (getitem azure_account ''Subscription'') py_upper of
        Inl e \<Rightarrow> (Inl e, w) | Inr subscription_key \<Rightarrow>
      case rbind (getitem azure_account ''Subscription'') py_replace_underscore of
        Inl e \<Rightarrow> (Inl e, w) | Inr minuses_subscription_key \<Rightarrow>
      let credential =
            \<lparr>tenant_id = getenv env (''AZURE_'' @ subscription_key @ ''_TENANT''),
             client_id = getenv env (''AZURE_'' @ subscription_key @ ''_CLIENT''),
             client_secret = getenv env (''AZURE_'' @ subscription_key @ ''_SECRET'')\<rparr> in
      case client_secret_credential env credential of
        Some e \<Rightarrow> (Inl (Raised e), w) | None \<Rightarrow>
      case getitem azure_account ''Subscription'' of
        Inl e \<Rightarrow> (Inl e, w) | Inr subscription_id \<Rightarrow>
      case cost_management_client env credential subscription_id of
        Some e \<Rightarrow> (Inl (Raised e), w) | None \<Rightarrow>
      let scope = ''/subscriptions/'' @ minuses_subscription_key;
          query =
            \<lparr>qd_type = ''ActualCost'',
             timeframe = ''Custom'',
             time_period = PDict [(''from'', PStr start_date), (''to'', PStr end_date)],
             dataset = PDict
               [(''granularity'', PStr ''Monthly''),
                (''aggregation'', PDict [(''totalCost'', PDict
                   [(''name'', PStr ''PreTaxCost''), (''function'', PStr ''Sum'')])])]\<rparr>
      in query_azure env credential scope query w)"

subsection \<open>insert_into_db\<close>

text \<open>
  The body of the \<^verbatim>\<open>try\<close> statement: connect, read the three fields of \<open>data\<close>,
  execute the statement, commit. The result is the exception that ended it, if any; the
  row is in the table once the commit has returned.
\<close>

definition insert_row ::
  "'f env \<Rightarrow> nat \<Rightarrow> string \<Rightarrow> string \<Rightarrow> 'f pyval \<Rightarrow> string \<Rightarrow> py_exn + 'f db_row" where
  "insert_row env t conn_str table_name data sample_date =
     (case psycopg2_connect env t conn_str of
        Some e \<Rightarrow> Inl e
      | None \<Rightarrow>
      case rbind (getitem data ''accountName'') (\<lambda>name.
           rbind (getitem data ''Subscription'') (\<lambda>sub.
           rbind (getitem data ''monthlyCost'') (\<lambda>cost.
             Inr \<lparr>accountName = name, Subscription = sub, monthlyCost = cost,
                  SampleDate = sample_date\<rparr>))) of
        Inl (Raised e) \<Rightarrow> Inl e
      | Inl (SystemExit n) \<Rightarrow> Inl (Exn OtherError [])
      | Inr row \<Rightarrow>
      case cursor_execute env t
             (''INSERT INTO '' @ table_name @
              '' (accountName, Subscription, monthlyCost, SampleDate) VALUES (%s, %s, %s, %s)'')
             row of
        Some e \<Rightarrow> Inl e
      | None \<Rightarrow>
      case conn_commit env t of
        Some e \<Rightarrow> Inl e
      | None \<Rightarrow> Inr row)"

definition insert_into_db ::
  "'f env \<Rightarrow> 'f pyval \<Rightarrow> string \<Rightarrow> 'f world \<Rightarrow> unit res \<times> 'f world" where
  "insert_into_db env data table_name w =
     (let user = getenv env ''POSTGRES_USER'';
          password = getenv env ''POSTGRES_PASSWORD'';
          host = getenv env ''POSTGRES_HOST'';
          dbname = getenv env ''POSTGRES_DBNAME'';
          sample_date = strftime_dmy (today env (ticks w));
          conn_str = ''dbname='' @ str_of_getenv dbname @ '' user='' @ str_of_getenv user @
                     '' password='' @ str_of_getenv password @ '' host='' @ str_of_getenv host;
          w' = tick (w\<lparr>insert_calls := insert_calls w @ [(table_name, data)]\<rparr>)
      in case insert_row env (ticks w) conn_str table_name data sample_date of
           Inr row \<Rightarrow> (Inr (), w'\<lparr>db := db w' @ [(table_name, row)]\<rparr>)
         | Inl e \<Rightarrow>
             (Inr (), print_stderr (''Error inserting data into database: '' @ exn_str e) w'))"

subsection \<open>main\<close>

text \<open>The body of the first loop of \<^verbatim>\<open>main\<close>, for one AWS account.\<close>

definition aws_body ::
  "'f env \<Rightarrow> string \<Rightarrow> string \<Rightarrow> 'f pyval \<Rightarrow> 'f world \<Rightarrow> unit res \<times> 'f world" where
  "aws_body env aws_start_date aws_end_date aws_account w =
     (case fetch_aws_costs env aws_account aws_start_date aws_end_date w of
        (Inl e, w1) \<Rightarrow> (Inl e, w1)
      | (Inr aws_cost, w1) \<Rightarrow>
          if aws_cost \<noteq> PNone then
            case getitem aws_account ''accountName'' of
              Inl e \<Rightarrow> (Inl e, w1)
            | Inr name \<Rightarrow>
                insert_into_db env
                  (PDict [(''accountName'', name), (''Subscription'', PStr ''N/A''),
                          (''monthlyCost'', aws_cost)])
                  ''aws_monthly_cost'' w1
          else (Inr (), w1))"

text \<open>The body of the second loop, for one Azure subscription.\<close>

definition azure_body ::
  "'f env \<Rightarrow> string \<Rightarrow> string \<Rightarrow> 'f pyval \<Rightarrow> 'f world \<Rightarrow> unit res \<times> 'f world" where
  "azure_body env azure_start_date azure_end_date azure_account w =
     (case fetch_azure_costs env azure_account azure_start_date azure_end_date w of
        (Inl e, w1) \<Rightarrow> (Inl e, w1)
      | (Inr azure_cost, w1) \<Rightarrow>
          if azure_cost \<noteq> PNone then
            case getitem azure_account ''accountName'' of
              Inl e \<Rightarrow> (Inl e, w1)
            | Inr name \<Rightarrow>
            case getitem azure_account ''Subscription'' of
              Inl e \<Rightarrow> (Inl e, w1)
            | Inr sub \<Rightarrow>
                insert_into_db env
                  (PDict [(''accountName'', name), (''Subscription'', sub),
                          (''monthlyCost'', azure_cost)])
                  ''azure_monthly_cost'' w1
          else (Inr (), w1))"

text \<open>
  A \<^verbatim>\<open>for\<close> loop over the descriptors: an exception leaving the body leaves the loop,
  and the descriptors after it are not visited.
\<close>

fun for_each ::
  "('f pyval \<Rightarrow> 'f world \<Rightarrow> unit res \<times> 'f world) \<Rightarrow> 'f pyval list \<Rightarrow> 'f world
     \<Rightarrow> unit res \<times> 'f world" where
  "for_each body [] w = (Inr (), w)"
| "for_each body (x # xs) w =
     (case body x w of
        (Inl e, w') \<Rightarrow> (Inl e, w')
      | (Inr u, w') \<Rightarrow> for_each body xs w')"

definition main :: "'f env \<Rightarrow> 'f world \<Rightarrow> unit res \<times> 'f world" where
  "main env w =
     (case load_config env w of
        (Inl e, w1) \<Rightarrow> (Inl e, w1)
      | (Inr config, w1) \<Rightarrow>
      let w2 = tick w1 in
      case get_previous_month_range (today env (ticks w1)) of
        Inl e \<Rightarrow> (Inl e, w2)
      | Inr ((aws_start_date, aws_end_date), (azure_start_date, azure_end_date)) \<Rightarrow>
      case rbind (getitem config ''aws'') py_iter of
        Inl e \<Rightarrow> (Inl e, w2)
      | Inr aws_accounts \<Rightarrow>
      case for_each (aws_body env aws_start_date aws_end_date) aws_accounts w2 of
        (Inl e, w3) \<Rightarrow> (Inl e, w3)
      | (Inr u, w3) \<Rightarrow>
      case rbind (getitem config ''azure'') py_iter of
        Inl e \<Rightarrow> (Inl e, w3)
      | Inr azure_accounts \<Rightarrow>
          for_each (azure_body env azure_start_date azure_end_date) azure_accounts w3)"

text \<open>
  The script run as a process: status 0 when \<^verbatim>\<open>main\<close> returns, the argument of
  \<^verbatim>\<open>exit\<close> when it was called, and status 1 with a traceback on standard error when
  an exception leaves \<^verbatim>\<open>main\<close>.
\<close>

definition run_script :: "'f env \<Rightarrow> 'f world \<Rightarrow> nat \<times> 'f world" where
  "run_script env w =
     (case main env w of
        (Inr u, w') \<Rightarrow> (0, w')
      | (Inl (SystemExit n), w') \<Rightarrow> (n, w')
      | (Inl (Raised e), w') \<Rightarrow>
          (1, print_stderr (''Traceback (most recent call last): '' @ exn_str e) w'))"

definition world0 :: "'f world" where
  "world0 = \<lparr>ticks = 0, stdout = [], stderr = [], ce_calls = [], insert_calls = [], db = []\<rparr>"

section \<open>Vocabulary of the specification\<close>

text \<open>
  The specification speaks of the month before today's month and of dates written
  \<^verbatim>\<open>YYYY-MM-DD\<close> and day/month/2-digit-year. These definitions say what that means,
  without reference to the code: a text is read back as numbers.
\<close>

definition is_digit :: "char \<Rightarrow> bool" where
  "is_digit c = (48 \<le> (of_char c :: nat) \<and> (of_char c :: nat) \<le> 57)"

definition decimal :: "string \<Rightarrow> nat" where
  "decimal s = foldl (\<lambda>a c. 10 * a + (of_char c - 48)) 0 s"

definition reads_as_ymd :: "string \<Rightarrow> date \<Rightarrow> bool" where
  "reads_as_ymd s d =
     (length s = 10 \<and> s ! 4 = CHR ''-'' \<and> s ! 7 = CHR ''-'' \<and>
      list_all is_digit (take 4 s) \<and> decimal (take 4 s) = year d \<and>
      list_all is_digit (take 2 (drop 5 s)) \<and> decimal (take 2 (drop 5 s)) = month d \<and>
      list_all is_digit (drop 8 s) \<and> decimal (drop 8 s) = day d)"

definition reads_as_dmy :: "string \<Rightarrow> date \<Rightarrow> bool" where
  "reads_as_dmy s d =
     (length s = 8 \<and> s ! 2 = CHR ''/'' \<and> s ! 5 = CHR ''/'' \<and>
      list_all is_digit (take 2 s) \<and> decimal (take 2 s) = day d \<and>
      list_all is_digit (take 2 (drop 3 s)) \<and> decimal (take 2 (drop 3 s)) = month d \<and>
      list_all is_digit (drop 6 s) \<and> decimal (drop 6 s) = year d mod 100)"

definition spec_first_of_previous_month :: "date \<Rightarrow> date" where
  "spec_first_of_previous_month t =
     (if month t = 1 then \<lparr>year = year t - 1, month = 12, day = 1\<rparr>
      else \<lparr>year = year t, month = month t - 1, day = 1\<rparr>)"

definition spec_last_of_previous_month :: "date \<Rightarrow> date" where
  "spec_last_of_previous_month t =
     (if month t = 1 then \<lparr>year = year t - 1, month = 12, day = 31\<rparr>
      else \<lparr>year = year t, month = month t - 1,
            day = days_in_month (year t) (month t - 1)\<rparr>)"

text \<open>The cost query without a tag filter, and the tag filter of a key and a value.\<close>

definition unfiltered_query :: "string \<Rightarrow> string \<Rightarrow> 'f ce_query" where
  "unfiltered_query start_date end_date =
     \<lparr>TimePeriod = PDict [(''Start'', PStr start_date), (''End'', PStr end_date)],
      Granularity = ''MONTHLY'',
      Metrics = [''UnblendedCost''],
      Filter = None\<rparr>"

definition tag_equals :: "'f pyval \<Rightarrow> 'f pyval \<Rightarrow> 'f pyval" where
  "tag_equals k v =
     PDict [(''Tags'', PDict
       [(''Key'', k), (''Values'', PList [v]), (''MatchOptions'', PList [PStr ''EQUALS''])])]"

section \<open>Example runs\<close>

text \<open>
  A run on 2024-03-15 with two AWS accounts and one Azure subscription, where every call
  succeeds. Floating-point numbers are written as their decimal text here.
\<close>

definition account_a :: "string pyval" where
  "account_a = PDict
     [(''accountId'', PStr ''111111111111''), (''roleName'', PStr ''billing''),
      (''accountName'', PStr ''prod''), (''tags'', PStr ''true''),
      (''tagKey'', PStr ''team''), (''tagValue'', PStr ''core'')]"

definition account_b :: "string pyval" where
  "account_b = PDict
     [(''accountId'', PStr ''222222222222''), (''roleName'', PStr ''billing''),
      (''accountName'', PStr ''dev''), (''tags'', PBool True),
      (''tagKey'', PStr ''team''), (''tagValue'', PStr ''core'')]"

definition subscription_x :: "string pyval" where
  "subscription_x = PDict
     [(''Subscription'', PStr ''sub_x''), (''accountName'', PStr ''azure-prod'')]"

definition example_config :: "string pyval" where
  "example_config = PDict
     [(''aws'', PList [account_a, account_b]), (''azure'', PList [subscription_x])]"

definition example_credentials :: "string pyval" where
  "example_credentials = PDict [(''Credentials'', PDict
     [(''AccessKeyId'', PStr ''AKIA''), (''SecretAccessKey'', PStr ''s3cr3t''),
      (''SessionToken'', PStr ''tok'')])]"

definition example_session :: "string session" where
  "example_session =
     \<lparr>aws_access_key_id = PStr ''AKIA'', aws_secret_access_key = PStr ''s3cr3t'',
      aws_session_token = PStr ''tok''\<rparr>"

definition example_response :: "string pyval" where
  "example_response = PDict [(''ResultsByTime'', PList [PDict [(''Total'', PDict
     [(''UnblendedCost'', PDict [(''Amount'', PStr ''123.45''), (''Unit'', PStr ''USD'')])])]])]"

definition empty_response :: "string pyval" where
  "empty_response = PDict [(''ResultsByTime'', PList [])]"

fun example_float :: "string pyval \<Rightarrow> py_exn + string" where
  "example_float (PStr s) = Inr s"
| "example_float (PFloat x) = Inr x"
| "example_float v = Inl (Exn TypeError ''float() argument must be a string or a real number'')"

definition march_15 :: date where
  "march_15 = \<lparr>year = 2024, month = 3, day = 15\<rparr>"

definition env_ok :: "string env" where
  "env_ok =
     \<lparr>config_file = (\<lambda>t. Inr example_config),
      today = (\<lambda>t. march_15),
      getenv = map_of
        [(''AZURE_SUB_X_CLIENT'', ''cid''), (''AZURE_SUB_X_SECRET'', ''pw''),
         (''AZURE_SUB_X_TENANT'', ''tid''), (''POSTGRES_USER'', ''u''),
         (''POSTGRES_PASSWORD'', ''p''), (''POSTGRES_HOST'', ''h''),
         (''POSTGRES_DBNAME'', ''costs'')],
      py_float = example_float,
      sts_assume_role = (\<lambda>t account_id role_name. Inr example_credentials),
      get_cost_and_usage = (\<lambda>t session q. Inr example_response),
      client_secret_credential = (\<lambda>c. None),
      cost_management_client = (\<lambda>c v. None),
      query_usage = (\<lambda>t c scope q. Inr (Some [PList [PFloat ''67.89'']])),
      psycopg2_connect = (\<lambda>t conn_str. None),
      cursor_execute = (\<lambda>t sql row. None),
      conn_commit = (\<lambda>t. None)\<rparr>"

text \<open>The same run when STS refuses the role of the first account only.\<close>

definition env_role_denied :: "string env" where
  "env_role_denied =
     env_ok\<lparr>sts_assume_role := (\<lambda>t account_id role_name.
       if account_id = PStr ''111111111111''
       then Inl (Exn ClientError ''AccessDenied'')
       else Inr example_credentials)\<rparr>"

text \<open>The same run when the database cannot be reached.\<close>

definition env_db_down :: "string env" where
  "env_db_down =
     env_ok\<lparr>psycopg2_connect := (\<lambda>t conn_str.
       Some (Exn OperationalError ''could not connect to server''))\<rparr>"

text \<open>The same run when the billing services have no data for the month.\<close>

definition env_no_data :: "string env" where
  "env_no_data =
     env_ok\<lparr>get_cost_and_usage := (\<lambda>t session q. Inr empty_response),
            query_usage := (\<lambda>t c scope q. Inr (Some []))\<rparr>"

section \<open>Dates and their texts\<close>

lemma of_char_digit: "(of_char (digit n) :: nat) = 48 + n mod 10"
  by (simp add: digit_def)

lemma is_digit_digit: "is_digit (digit n)"
  by (simp add: is_digit_def of_char_digit)

lemma decimal_pad2: "n < 100 \<Longrightarrow> decimal (pad2 n) = n"
  by (simp add: decimal_def pad2_def of_char_digit)

lemma horner4:
  fixes n :: nat
  assumes "n = 10 * a + m0" "a = 10 * b + m1" "b = 10 * c + m2"
  shows "10 * (10 * (10 * c + m2) + m1) + m0 = n"
  using assms by simp

lemma decimal_pad4:
  assumes "n < 10000"
  shows "decimal (pad4 n) = n"
proof -
  have d1: "n div 100 = n div 10 div 10"
    by (simp add: div_mult2_eq [symmetric])
  have d2: "n div 1000 = n div 10 div 10 div 10"
    by (simp add: div_mult2_eq [symmetric])
  have s: "n div 10 div 10 div 10 < 10"
    using assms unfolding d2 [symmetric] by simp
  have e0: "n = 10 * (n div 10) + n mod 10"
    by simp
  have e1: "n div 10 = 10 * (n div 10 div 10) + n div 10 mod 10"
    by simp
  have e2: "n div 10 div 10 = 10 * (n div 10 div 10 div 10) + n div 10 div 10 mod 10"
    by simp
  have "decimal (pad4 n) =
      10 * (10 * (10 * (n div 10 div 10 div 10 mod 10) + n div 10 div 10 mod 10)
        + n div 10 mod 10) + n mod 10"
    by (simp add: decimal_def pad4_def of_char_digit d1 d2)
  also have "\<dots> = 10 * (10 * (10 * (n div 10 div 10 div 10) + n div 10 div 10 mod 10)
        + n div 10 mod 10) + n mod 10"
    using s by simp
  also have "\<dots> = n"
    using e0 e1 e2 by (rule horner4)
  finally show ?thesis .
qed

lemma length_pad2: "length (pad2 n) = 2"
  by (simp add: pad2_def)

lemma length_pad4: "length (pad4 n) = 4"
  by (simp add: pad4_def)

lemma days_in_month_le: "days_in_month y m \<le> 31"
  by (simp add: days_in_month_def)

lemma days_in_month_ge: "28 \<le> days_in_month y m"
  by (simp add: days_in_month_def)

lemma reads_as_ymd_strftime:
  assumes "year d < 10000" "month d < 100" "day d < 100"
  shows "reads_as_ymd (strftime_ymd d) d"
proof -
  obtain a b c e where p4: "pad4 (year d) = [a, b, c, e]"
    by (simp add: pad4_def)
  obtain f g where pm: "pad2 (month d) = [f, g]"
    by (simp add: pad2_def)
  obtain h i where pd: "pad2 (day d) = [h, i]"
    by (simp add: pad2_def)
  have s: "strftime_ymd d = [a, b, c, e, CHR ''-'', f, g, CHR ''-'', h, i]"
    by (simp add: strftime_ymd_def p4 pm pd)
  have d4: "list_all is_digit [a, b, c, e]"
    unfolding p4 [symmetric] by (simp add: pad4_def is_digit_digit)
  have dm: "list_all is_digit [f, g]"
    unfolding pm [symmetric] by (simp add: pad2_def is_digit_digit)
  have dd: "list_all is_digit [h, i]"
    unfolding pd [symmetric] by (simp add: pad2_def is_digit_digit)
  have v4: "decimal [a, b, c, e] = year d"
    unfolding p4 [symmetric] using assms(1) by (rule decimal_pad4)
  have vm: "decimal [f, g] = month d"
    unfolding pm [symmetric] using assms(2) by (rule decimal_pad2)
  have vd: "decimal [h, i] = day d"
    unfolding pd [symmetric] using assms(3) by (rule decimal_pad2)
  show ?thesis
    unfolding reads_as_ymd_def s using d4 dm dd v4 vm vd by simp
qed

lemma reads_as_dmy_strftime:
  assumes "month d < 100" "day d < 100"
  shows "reads_as_dmy (strftime_dmy d) d"
proof -
  obtain a b where py: "pad2 (year d mod 100) = [a, b]"
    by (simp add: pad2_def)
  obtain f g where pm: "pad2 (month d) = [f, g]"
    by (simp add: pad2_def)
  obtain h i where pd: "pad2 (day d) = [h, i]"
    by (simp add: pad2_def)
  have s: "strftime_dmy d = [h, i, CHR ''/'', f, g, CHR ''/'', a, b]"
    by (simp add: strftime_dmy_def py pm pd)
  have dy: "list_all is_digit [a, b]"
    unfolding py [symmetric] by (simp add: pad2_def is_digit_digit)
  have dm: "list_all is_digit [f, g]"
    unfolding pm [symmetric] by (simp add: pad2_def is_digit_digit)
  have dd: "list_all is_digit [h, i]"
    unfolding pd [symmetric] by (simp add: pad2_def is_digit_digit)
  have vy: "decimal [a, b] = year d mod 100"
    unfolding py [symmetric] by (rule decimal_pad2) simp
  have vm: "decimal [f, g] = month d"
    unfolding pm [symmetric] using assms(1) by (rule decimal_pad2)
  have vd: "decimal [h, i] = day d"
    unfolding pd [symmetric] using assms(2) by (rule decimal_pad2)
  show ?thesis
    unfolding reads_as_dmy_def s using dy dm dd vy vm vd by simp
qed

lemma minus_one_day_first:
  assumes "1 < year t \<or> 1 < month t" and "1 \<le> month t"
  shows "minus_one_day (replace_day1 t) = Inr (spec_last_of_previous_month t)"
  using assms
  by (auto simp: minus_one_day_def replace_day1_def spec_last_of_previous_month_def)

lemma replace_day1_last:
  "replace_day1 (spec_last_of_previous_month t) = spec_first_of_previous_month t"
  by (simp add: replace_day1_def spec_last_of_previous_month_def
      spec_first_of_previous_month_def)

lemma get_previous_month_range_eq:
  assumes "1 < year t \<or> 1 < month t" and "1 \<le> month t"
  shows "get_previous_month_range t =
    Inr ((strftime_ymd (spec_first_of_previous_month t),
          strftime_ymd (spec_last_of_previous_month t)),
         (strftime_ymd (spec_first_of_previous_month t) @ ''T00:00:00Z'',
          strftime_ymd (spec_last_of_previous_month t) @ ''T23:59:59Z''))"
  by (simp add: get_previous_month_range_def minus_one_day_first [OF assms]
      replace_day1_last Let_def)

text \<open>
  Claim C3. For every date \<open>t\<close> the clock can give (a valid date later than January of
  year 1, where the library cannot step back a day), \<^verbatim>\<open>get_previous_month_range\<close>
  returns the first and the last calendar day of the month before the month of \<open>t\<close>,
  written \<^verbatim>\<open>YYYY-MM-DD\<close> for AWS and with \<^verbatim>\<open>T00:00:00Z\<close> and \<^verbatim>\<open>T23:59:59Z\<close>
  appended for Azure. For 2024-03-15 these are 2024-02-01 and 2024-02-29.
\<close>

theorem previous_month_range:
  assumes "valid_date t" and "1 < year t \<or> 1 < month t"
  shows "\<exists>a b. get_previous_month_range t =
           Inr ((a, b), (a @ ''T00:00:00Z'', b @ ''T23:59:59Z'')) \<and>
         reads_as_ymd a (spec_first_of_previous_month t) \<and>
         reads_as_ymd b (spec_last_of_previous_month t) \<and>
         valid_date (spec_first_of_previous_month t) \<and>
         valid_date (spec_last_of_previous_month t)"
proof -
  let ?f = "spec_first_of_previous_month t"
  let ?l = "spec_last_of_previous_month t"
  have y: "year t \<le> 9999" and m: "1 \<le> month t" "month t \<le> 12"
    and y1: "1 \<le> year t"
    using assms(1) by (simp_all add: valid_date_def)
  have vf: "valid_date ?f"
    using y y1 m assms(2) days_in_month_ge [of "year ?f" "month ?f"]
    by (auto simp: valid_date_def spec_first_of_previous_month_def)
  have vl: "valid_date ?l"
    using y y1 m assms(2)
    by (auto simp: valid_date_def spec_last_of_previous_month_def days_in_month_def)
  have bf: "year ?f < 10000" "month ?f < 100" "day ?f < 100"
    using vf days_in_month_le [of "year ?f" "month ?f"] by (simp_all add: valid_date_def)
  have bl: "year ?l < 10000" "month ?l < 100" "day ?l < 100"
    using vl days_in_month_le [of "year ?l" "month ?l"] by (simp_all add: valid_date_def)
  have rf: "reads_as_ymd (strftime_ymd ?f) ?f"
    using bf by (rule reads_as_ymd_strftime)
  have rl: "reads_as_ymd (strftime_ymd ?l) ?l"
    using bl by (rule reads_as_ymd_strftime)
  show ?thesis
    using get_previous_month_range_eq [OF assms(2) m(1)] rf rl vf vl by blast
qed

theorem previous_month_range_witness:
  "valid_date march_15 \<and> (1 < year march_15 \<or> 1 < month march_15) \<and>
   get_previous_month_range march_15 =
     Inr ((''2024-02-01'', ''2024-02-29''),
          (''2024-02-01T00:00:00Z'', ''2024-02-29T23:59:59Z'')) \<and>
   (\<exists>a b. get_previous_month_range march_15 =
           Inr ((a, b), (a @ ''T00:00:00Z'', b @ ''T23:59:59Z'')) \<and>
         reads_as_ymd a (spec_first_of_previous_month march_15) \<and>
         reads_as_ymd b (spec_last_of_previous_month march_15) \<and>
         valid_date (spec_first_of_previous_month march_15) \<and>
         valid_date (spec_last_of_previous_month march_15))"
proof -
  have v: "valid_date march_15"
    by (simp add: valid_date_def march_15_def days_in_month_def)
  have n: "1 < year march_15 \<or> 1 < month march_15"
    by (simp add: march_15_def)
  have e: "get_previous_month_range march_15 =
     Inr ((''2024-02-01'', ''2024-02-29''),
          (''2024-02-01T00:00:00Z'', ''2024-02-29T23:59:59Z''))"
  proof -
    have p: "pad4 2024 = ''2024''" "pad2 2 = ''02''" "pad2 (Suc 0) = ''01''" "pad2 29 = ''29''"
      by code_simp+
    show ?thesis
      by (simp add: get_previous_month_range_def minus_one_day_def replace_day1_def
          march_15_def days_in_month_def is_leap_def strftime_ymd_def p Let_def)
  qed
  note t = previous_month_range [OF v n]
  show ?thesis
    by (intro conjI) (fact v, fact n, fact e, fact t)
qed

end
